theory Spec2Isabelle
  imports
    Main
    "HOL-Library.AList"
    "HOL-Library.Char_ord"
    "HOL-Library.List_Lexorder"
    "HOL-Library.Product_Lexorder"
    "HOL-Library.Multiset"
    "HOL-Library.Sublist"
begin

section \<open>Python values shared by both scripts\<close>

text \<open>
  A Python \<open>str\<close> is modelled as a \<open>string\<close>, the list of the bytes of its UTF-8
  encoding. Comparing two such lists byte by byte (\<open>List_Lexorder\<close> over \<open>Char_ord\<close>)
  is Python's comparison of the two \<open>str\<close> values by code point, and a tuple of strings
  is compared lexicographically (\<open>Product_Lexorder\<close>), as Python compares tuples.

  \<open>sys.exit(n)\<close> is the value \<open>SysExit n\<close> on the left of a sum, and an exception
  that no handler catches is \<open>Uncaught\<close> with its name.
\<close>

datatype exit = SysExit int | Uncaught string

text \<open>Truthiness of an optional string: \<open>None\<close> and \<open>""\<close> are falsy.\<close>

definition truthy :: "string option \<Rightarrow> bool" where
  "truthy k = (case k of None \<Rightarrow> False | Some s \<Rightarrow> s \<noteq> [])"

text \<open>\<open>a or b\<close> on optional strings: \<open>a\<close> when it is truthy, else \<open>b\<close>.\<close>

definition py_or :: "string option \<Rightarrow> string option \<Rightarrow> string option" where
  "py_or a b = (if truthy a then a else b)"

text \<open>
  \<open>str.isspace\<close> on the ASCII range (tab, line feed, vertical tab, form feed, carriage
  return, the four separators 0x1C..0x1F and the space), and \<open>str.strip()\<close>, which
  removes leading and trailing whitespace. Whitespace outside ASCII is not modelled.
\<close>

definition isspace :: "char \<Rightarrow> bool" where
  "isspace c = (let n = (of_char c :: nat) in (9 \<le> n \<and> n \<le> 13) \<or> (28 \<le> n \<and> n \<le> 32))"

definition strip :: "string \<Rightarrow> string" where
  "strip s = rev (dropWhile isspace (rev (dropWhile isspace s)))"

text \<open>The JSON values a payload is built from; an object keeps its keys in insertion order.\<close>

datatype json =
    JString string
  | JInt int
  | JBool bool
  | JArray "json list"
  | JObject "(string \<times> json) list"

text \<open>\<open>d[k]\<close> on a JSON object, \<open>None\<close> for a missing key or a value that is no object.\<close>

fun jget :: "json \<Rightarrow> string \<Rightarrow> json option" where
  "jget (JObject kvs) k = map_of kvs k"
| "jget _ k = None"

text \<open>
  \<open>str.lower()\<close> on the bytes of a string: the ASCII capitals move to the small letters
  and every other byte stays. (Beyond ASCII, Python lowers a code point to a string with
  an ASCII letter only for U+0130, to an \<open>i\<close>, and U+212A, to a \<open>k\<close>; no keyword
  searched for below has either letter.) \<open>needle in haystack\<close> on strings is
  \<open>sublist needle haystack\<close>.
\<close>

definition lower_char :: "char \<Rightarrow> char" where
  "lower_char c =
     (if CHR ''A'' \<le> c \<and> c \<le> CHR ''Z'' then char_of (of_char c + (32::nat)) else c)"

definition lower :: "string \<Rightarrow> string" where
  "lower s = map lower_char s"


section \<open>The Gemini client (gemini3pro-deepthink.py)\<close>

subsection \<open>get\_api\_key\<close>

text \<open>
  \<open>os.environ\<close> is a map from variable names to values. The two \<open>print\<close> calls before
  \<open>sys.exit(1)\<close> are output only and are left out.
\<close>

definition get_api_key :: "string option \<Rightarrow> (string \<rightharpoonup> string) \<Rightarrow> exit + string" where
  "get_api_key arg_key environ =
     (case py_or arg_key (environ ''GEMINI_API_KEY'') of
        None \<Rightarrow> Inl (SysExit 1)
      | Some key \<Rightarrow>
          if key = [] \<or> key = ''1234'' then Inl (SysExit 1) else Inr key)"

subsection \<open>main, up to the request payload\<close>

text \<open>The parsed command line (\<open>args\<close>), with argparse's types and defaults.\<close>

record args =
  prompt :: "string option"
  stdin :: bool
  model :: string
  api_key :: "string option"
  max_tokens :: int
  thinking_level :: string
  thinking_budget :: int
  no_thoughts :: bool
  no_search :: bool
  verbose :: bool
  raw :: bool

text \<open>What \<open>main\<close> reads from the process: the environment, and standard input.\<close>

record process =
  environ :: "string \<rightharpoonup> string"
  isatty :: bool
  stdin_read :: string

text \<open>
  Step 2 of \<open>main\<close>: \<open>thinking_config\<close> starts as \<open>{"includeThoughts": ...}\<close> and gets
  exactly one more key, by the test \<open>args.thinking_budget > 0\<close>.
\<close>

definition thinking_config :: "args \<Rightarrow> (string \<times> json) list" where
  "thinking_config a =
     (let tc = [(''includeThoughts'', JBool (\<not> no_thoughts a))] in
      if thinking_budget a > 0
      then AList.update ''thinkingBudget'' (JInt (thinking_budget a)) tc
      else AList.update ''thinkingLevel'' (JString (thinking_level a)) tc)"

text \<open>
  \<open>main\<close> from the prompt to the finished payload (steps 1 and 2 and the tools): it
  exits with code 1 when there is no prompt or no valid key, and otherwise the payload
  is what is sent.
\<close>

definition main_payload :: "args \<Rightarrow> process \<Rightarrow> exit + json" where
  "main_payload a p =
     (let prompt_text =
            (if stdin a \<and> \<not> isatty p then Some (strip (stdin_read p)) else prompt a)
      in if \<not> truthy prompt_text then Inl (SysExit 1)
         else case get_api_key (api_key a) (environ p) of
                Inl e \<Rightarrow> Inl e
              | Inr key \<Rightarrow>
                  (let payload =
                         [(''contents'',
                             JArray [JObject [(''parts'',
                               JArray [JObject [(''text'',
                                 JString (case prompt_text of Some t \<Rightarrow> t | None \<Rightarrow> []))]])]]),
                          (''generationConfig'',
                             JObject [(''maxOutputTokens'', JInt (max_tokens a)),
                                      (''thinkingConfig'', JObject (thinking_config a))])]
                   in Inr (JObject
                        (if \<not> no_search a
                         then AList.update ''tools'' (JArray [JObject [(''googleSearch'', JObject [])]]) payload
                         else payload))))"

text \<open>The \<open>thinkingConfig\<close> object of a payload, read as \<open>payload["generationConfig"]["thinkingConfig"]\<close>.\<close>

definition payload_thinking_config :: "json \<Rightarrow> json option" where
  "payload_thinking_config pl =
     (case jget pl ''generationConfig'' of
        None \<Rightarrow> None
      | Some g \<Rightarrow> jget g ''thinkingConfig'')"

section \<open>Model discovery (vertex\_on\_demand.py)\<close>

subsection \<open>Constants\<close>

definition PUBLISHERS :: "string list" where
  "PUBLISHERS = [''google'', ''anthropic'', ''meta'', ''mistral-ai'', ''ai21'']"

definition LLM_PATTERNS :: "string list" where
  "LLM_PATTERNS =
     [''gemini'', ''claude'', ''llama'', ''mistral'', ''mixtral'', ''codestral'', ''jamba'']"

definition CONTINENT_REGIONS :: "(string \<times> string list) list" where
  "CONTINENT_REGIONS =
     [(''us'', [''us-central1'', ''us-east1'', ''us-east4'', ''us-east5'', ''us-south1'',
               ''us-west1'', ''us-west4'']),
      (''europe'', [''europe-west1'', ''europe-west4'', ''europe-west9'']),
      (''asia'', [''asia-east1'', ''asia-east2'', ''asia-northeast1'', ''asia-northeast3'',
                 ''asia-south1'', ''asia-southeast1''])]"

subsection \<open>The remote API\<close>

text \<open>
  One call of \<open>requests.post(url, headers=..., json=..., timeout=15)\<close> either gives a
  response, with its status code and body text, or raises: \<open>requests.exceptions.Timeout\<close>
  or some other exception. The remote side is a function from the request to that
  result, so the same request is answered the same way throughout a run.
\<close>

datatype http_result = Response int string | Timeout | RequestError

record request =
  url :: string
  headers :: "(string \<times> string) list"
  body :: json

type_synonym network = "request \<Rightarrow> http_result"

subsection \<open>check\_model\_availability\<close>

text \<open>
  The result dictionaries of the script. A probe result has the key \<open>endpoint\<close> and no
  key \<open>regions\<close>; a regional report has \<open>regions\<close> and no \<open>endpoint\<close>.
\<close>

record model_info =
  publisher :: string
  model_id :: string
  status :: string
  endpoint :: "string option"
  regions :: "string list option"
  requires_eula :: bool

text \<open>\<open>region if region else "global"\<close>, for a region that is \<open>None\<close> on the global endpoint.\<close>

definition location_of :: "string option \<Rightarrow> string" where
  "location_of region =
     (case region of Some r \<Rightarrow> if r \<noteq> [] then r else ''global'' | None \<Rightarrow> ''global'')"

text \<open>The URL, headers and payload of a probe.\<close>

definition probe_request ::
  "string \<Rightarrow> string \<Rightarrow> string \<Rightarrow> string \<Rightarrow> string option \<Rightarrow> request" where
  "probe_request project pub mid access_token region =
     (let location = location_of region;
          base_url = (if truthy region
                      then ''https://'' @ location @ ''-aiplatform.googleapis.com''
                      else ''https://aiplatform.googleapis.com'');
          model_url = base_url @ ''/v1/projects/'' @ project @ ''/locations/'' @ location
                      @ ''/publishers/'' @ pub @ ''/models/'' @ mid;
          hdrs = [(''Authorization'', ''Bearer '' @ access_token),
                  (''Content-Type'', ''application/json'')]
      in if pub = ''anthropic'' then
           \<lparr>url = model_url @ '':rawPredict'', headers = hdrs,
            body = JObject [(''anthropic_version'', JString ''vertex-2023-10-16''),
                            (''max_tokens'', JInt 1),
                            (''messages'', JArray [JObject [(''role'', JString ''user''),
                                                            (''content'', JString ''hi'')]])]\<rparr>
         else if pub = ''mistral-ai'' then
           \<lparr>url = model_url @ '':rawPredict'', headers = hdrs,
            body = JObject [(''model'', JString mid),
                            (''max_tokens'', JInt 1),
                            (''messages'', JArray [JObject [(''role'', JString ''user''),
                                                            (''content'', JString ''hi'')]])]\<rparr>
         else
           \<lparr>url = model_url @ '':generateContent'', headers = hdrs,
            body = JObject [(''contents'', JArray [JObject [(''role'', JString ''user''),
                               (''parts'', JArray [JObject [(''text'', JString ''hi'')]])]]),
                            (''generationConfig'', JObject [(''maxOutputTokens'', JInt 1)])]\<rparr>)"

text \<open>
  The probe: one request, and the result read off the status code and, for 403, the
  lowered body. Both \<open>except\<close> clauses return \<open>None\<close>.
\<close>

definition check_model_availability ::
  "network \<Rightarrow> string \<Rightarrow> string \<Rightarrow> string \<Rightarrow> string \<Rightarrow> string option \<Rightarrow> model_info option" where
  "check_model_availability net project pub mid access_token region =
     (case net (probe_request project pub mid access_token region) of
        Response status_code text \<Rightarrow>
          if status_code = 200 then
            Some \<lparr>publisher = pub, model_id = mid, status = ''available'',
                  endpoint = Some (location_of region),
                  regions = None, requires_eula = (pub \<notin> set [''google''])\<rparr>
          else if status_code = 403 then
            (let error_text = lower text in
             if sublist ''agreement'' error_text \<or> sublist ''eula'' error_text
                \<or> sublist ''terms'' error_text then
               Some \<lparr>publisher = pub, model_id = mid, status = ''needs_eula'',
                     endpoint = Some (location_of region),
                     regions = None, requires_eula = True\<rparr>
             else
               Some \<lparr>publisher = pub, model_id = mid, status = ''needs_permission'',
                     endpoint = Some (location_of region),
                     regions = None, requires_eula = (pub \<notin> set [''google''])\<rparr>)
          else if status_code = 404 then None
          else None
      | Timeout \<Rightarrow> None
      | RequestError \<Rightarrow> None)"

subsection \<open>check\_model\_in\_regions\<close>

text \<open>
  The loop over the regions, with its three lists as the accumulator; \<open>probe\<close> is the
  call of \<open>check_model_availability\<close> for one region.
\<close>

fun scan_regions ::
  "(string \<Rightarrow> model_info option) \<Rightarrow> string list \<Rightarrow>
   string list \<times> string list \<times> string list \<Rightarrow> string list \<times> string list \<times> string list" where
  "scan_regions probe [] acc = acc"
| "scan_regions probe (region # rest) (available_regions, needs_eula_regions, needs_perm_regions) =
     (case probe region of
        None \<Rightarrow>
          scan_regions probe rest (available_regions, needs_eula_regions, needs_perm_regions)
      | Some result \<Rightarrow>
          if status result = ''available'' then
            scan_regions probe rest
              (available_regions @ [region], needs_eula_regions, needs_perm_regions)
          else if status result = ''needs_eula'' then
            scan_regions probe rest
              (available_regions, needs_eula_regions @ [region], needs_perm_regions)
          else if status result = ''needs_permission'' then
            scan_regions probe rest
              (available_regions, needs_eula_regions, needs_perm_regions @ [region])
          else
            scan_regions probe rest
              (available_regions, needs_eula_regions, needs_perm_regions))"

definition check_model_in_regions ::
  "network \<Rightarrow> string \<Rightarrow> string \<Rightarrow> string \<Rightarrow> string \<Rightarrow> string list \<Rightarrow> model_info option" where
  "check_model_in_regions net project pub mid access_token rs =
     (case scan_regions
             (\<lambda>region. check_model_availability net project pub mid access_token (Some region))
             rs ([], [], []) of
        (available_regions, needs_eula_regions, needs_perm_regions) \<Rightarrow>
          if available_regions \<noteq> [] \<or> needs_eula_regions \<noteq> [] \<or> needs_perm_regions \<noteq> [] then
            (if available_regions \<noteq> [] then
               Some \<lparr>publisher = pub, model_id = mid, status = ''available'',
                     endpoint = None, regions = Some available_regions,
                     requires_eula = (pub \<notin> set [''google''])\<rparr>
             else if needs_eula_regions \<noteq> [] then
               Some \<lparr>publisher = pub, model_id = mid, status = ''needs_eula'',
                     endpoint = None, regions = Some needs_eula_regions,
                     requires_eula = (pub \<notin> set [''google''])\<rparr>
             else
               Some \<lparr>publisher = pub, model_id = mid, status = ''needs_permission'',
                     endpoint = None, regions = Some needs_perm_regions,
                     requires_eula = (pub \<notin> set [''google''])\<rparr>)
          else None)"

subsection \<open>gcloud\<close>

text \<open>
  What a \<open>subprocess.run\<close> of \<open>gcloud\<close> can do: complete with a return code, its
  standard output and its standard error, run into the timeout, or find no executable.
\<close>

datatype proc_result = Completed int string string | TimeoutExpired | FileNotFoundError

text \<open>
  Everything outside the script that a sweep depends on: the two \<open>gcloud\<close> commands, the
  remote API, the order in which Python iterates over the set of candidates, and the
  order in which the futures of the worker pool complete. The two orders are choice
  functions read by \<open>arrange\<close> below.
\<close>

record world =
  gcloud_token :: proc_result
  gcloud_models :: proc_result
  remote :: network
  set_order :: "nat \<Rightarrow> nat"
  completion :: "nat \<Rightarrow> nat"

text \<open>
  \<open>arrange pick n xs\<close> lists the \<open>n\<close> elements of \<open>xs\<close> in the order that \<open>pick\<close>
  picks: with \<open>k\<close> elements left, the next one is the element at index
  \<open>pick (k - 1) mod k\<close> of what is left. Every order of \<open>xs\<close> is \<open>arrange pick\<close> for
  some \<open>pick\<close>. It stands for \<open>list(s)\<close> on a set and for \<open>as_completed(futures)\<close>.
\<close>

fun arrange :: "(nat \<Rightarrow> nat) \<Rightarrow> nat \<Rightarrow> 'a list \<Rightarrow> 'a list" where
  "arrange pick 0 xs = []"
| "arrange pick (Suc n) xs =
     (if xs = [] then []
      else (let k = pick n mod length xs
            in xs ! k # arrange pick n (take k xs @ drop (Suc k) xs)))"

text \<open>
  \<open>get_access_token\<close> runs \<open>gcloud\<close> with \<open>check=True\<close> and no timeout: a return code
  other than 0 raises \<open>CalledProcessError\<close>, which is caught and ends in \<open>sys.exit(1)\<close>;
  any other exception is not caught.
\<close>

definition get_access_token :: "proc_result \<Rightarrow> exit + string" where
  "get_access_token r =
     (case r of
        Completed returncode out err \<Rightarrow>
          if returncode = 0 then Inr (strip out) else Inl (SysExit 1)
      | TimeoutExpired \<Rightarrow> Inl (Uncaught ''TimeoutExpired'')
      | FileNotFoundError \<Rightarrow> Inl (Uncaught ''FileNotFoundError''))"

subsection \<open>fetch\_model\_garden\_models\<close>

text \<open>\<open>s.split("\n")\<close>: the pieces of \<open>s\<close> between line feeds, at least one piece.\<close>

fun split_lines :: "string \<Rightarrow> string list" where
  "split_lines [] = [[]]"
| "split_lines (c # cs) =
     (if c = CHR 0x0A then [] # split_lines cs
      else (case split_lines cs of
              [] \<Rightarrow> [[c]]
            | l # ls \<Rightarrow> (c # l) # ls))"

text \<open>
  \<open>re.match(r"publishers/([^/]+)/models/(.+)", line)\<close> and its two groups: the
  publisher is everything up to the next slash and is not empty; the model id is the
  rest of the line after \<open>/models/\<close>, up to a line feed, and is not empty.
\<close>

definition parse_resource_name :: "string \<Rightarrow> (string \<times> string) option" where
  "parse_resource_name line =
     (if prefix ''publishers/'' line then
        (let rest = drop (length ''publishers/'') line;
             pub = takeWhile (\<lambda>c. c \<noteq> CHR ''/'') rest;
             rest' = dropWhile (\<lambda>c. c \<noteq> CHR ''/'') rest;
             mid = takeWhile (\<lambda>c. c \<noteq> CHR 0x0A) (drop (length ''/models/'') rest')
         in if pub \<noteq> [] \<and> prefix ''/models/'' rest' \<and> mid \<noteq> [] then Some (pub, mid)
            else None)
      else None)"

text \<open>
  \<open>llm_regex.search(model_id)\<close> for the alternation of \<open>LLM_PATTERNS\<close> compiled with
  \<open>re.IGNORECASE\<close>: some pattern occurs in the model id, letter case aside. The
  patterns are plain lower-case words, and the model ids of a listing are ASCII.
\<close>

definition llm_search :: "string \<Rightarrow> bool" where
  "llm_search mid = list_ex (\<lambda>pat. sublist pat (lower mid)) LLM_PATTERNS"

text \<open>The loop over the lines of the listing.\<close>

fun collect_models :: "string list \<Rightarrow> (string \<times> string) list" where
  "collect_models [] = []"
| "collect_models (line # rest) =
     (if line = [] then collect_models rest
      else (case parse_resource_name line of
              None \<Rightarrow> collect_models rest
            | Some (pub, mid) \<Rightarrow>
                if pub \<notin> set PUBLISHERS then collect_models rest
                else if \<not> llm_search mid then collect_models rest
                else (pub, mid) # collect_models rest))"

definition fetch_model_garden_models :: "proc_result \<Rightarrow> (string \<times> string) list" where
  "fetch_model_garden_models r =
     (case r of
        Completed returncode out err \<Rightarrow>
          if returncode \<noteq> 0 then [] else collect_models (split_lines (strip out))
      | TimeoutExpired \<Rightarrow> []
      | FileNotFoundError \<Rightarrow> [])"

subsection \<open>get\_model\_patterns\<close>

text \<open>The static fallback list, in the order the function builds it.\<close>

definition static_patterns :: "(string \<times> string) list" where
  "static_patterns =
     map (Pair ''google'')
       [''gemini-3-pro-preview'', ''gemini-3-flash-preview'', ''gemini-2.5-pro'',
        ''gemini-2.5-flash'', ''gemini-2.5-flash-lite'', ''gemini-2.0-flash'',
        ''gemini-2.0-flash-001'', ''gemini-2.0-flash-lite''] @
     map (Pair ''anthropic'')
       [''claude-opus-4-5'', ''claude-sonnet-4-5'', ''claude-haiku-4-5'', ''claude-opus-4'',
        ''claude-sonnet-4'', ''claude-3-7-sonnet'', ''claude-3-5-sonnet'', ''claude-3-5-haiku'',
        ''claude-3-haiku''] @
     map (Pair ''meta'')
       [''llama-4-maverick-17b-128e-instruct-maas'', ''llama-3.3-70b-instruct-maas'',
        ''llama-3.2-90b-vision-instruct-maas'', ''llama-3.1-405b-instruct-maas''] @
     map (Pair ''mistral-ai'')
       [''mistral-medium-3'', ''mistral-small-2503'', ''mistral-ocr'', ''mistral-large-2407'',
        ''codestral-2'', ''codestral-2405''] @
     map (Pair ''ai21'') [''jamba-large-1.6'']"

definition mistral_specific_models :: "string list" where
  "mistral_specific_models =
     [''mistral-medium-3'', ''mistral-small-2503'', ''mistral-ocr'', ''mistral-large-2407'',
      ''codestral-2'', ''codestral-2405'']"

text \<open>
  The set \<open>expanded\<close> is a list without repetitions, and \<open>expanded.add(x)\<close> is
  \<open>List.insert x\<close>. The first loop of the dynamic branch: \<open>re.sub(r"@.*$", "", model_id)\<close>
  cuts the id at its first \<open>@\<close>.
\<close>

fun expand_models ::
  "(string \<times> string) list \<Rightarrow> (string \<times> string) list \<Rightarrow> (string \<times> string) list" where
  "expand_models [] expanded = expanded"
| "expand_models ((pub, mid) # rest) expanded =
     (let base_model = takeWhile (\<lambda>c. c \<noteq> CHR ''@'') mid;
          expanded' = (if base_model \<noteq> mid then List.insert (pub, base_model) expanded
                       else expanded);
          expanded'' = (if pub = ''anthropic'' then List.insert (pub, mid) expanded'
                        else expanded')
      in expand_models rest expanded'')"

definition get_model_patterns :: "world \<Rightarrow> bool \<Rightarrow> (string \<times> string) list" where
  "get_model_patterns w use_dynamic =
     (if use_dynamic then
        (let models = fetch_model_garden_models (gcloud_models w)
         in if models \<noteq> [] then
              (let expanded = expand_models models (remdups models);
                   expanded' = fold (\<lambda>m. List.insert (''mistral-ai'', m))
                                 mistral_specific_models expanded
               in arrange (set_order w) (length expanded') expanded')
            else static_patterns)
      else static_patterns)"

subsection \<open>discover\_models\<close>

text \<open>
  One unit of work of the sweep for one candidate: the regional aggregation when
  \<open>regions\<close> is a non-empty list, the probe of the global endpoint otherwise.
\<close>

definition unit_of_work ::
  "network \<Rightarrow> string \<Rightarrow> string \<Rightarrow> string list option \<Rightarrow> string \<times> string \<Rightarrow> model_info option" where
  "unit_of_work net project access_token rs cand =
     (case cand of (pub, mid) \<Rightarrow>
        (case rs of
           Some (r # rest) \<Rightarrow> check_model_in_regions net project pub mid access_token (r # rest)
         | _ \<Rightarrow> check_model_availability net project pub mid access_token None))"

text \<open>
  \<open>regions = CONTINENT_REGIONS.get(continent) if continent else None\<close>, and the
  candidates: \<open>get_model_patterns\<close>, called again for the static list should the
  first call give an empty list.
\<close>

definition region_list :: "string option \<Rightarrow> string list option" where
  "region_list continent =
     (case continent of
        None \<Rightarrow> None
      | Some c \<Rightarrow> if c = [] then None else map_of CONTINENT_REGIONS c)"

definition candidate_patterns :: "world \<Rightarrow> bool \<Rightarrow> (string \<times> string) list" where
  "candidate_patterns w use_static =
     (let use_dynamic = \<not> use_static;
          patterns = get_model_patterns w use_dynamic
      in if patterns = [] then get_model_patterns w False else patterns)"

text \<open>The sort key \<open>lambda x: (x["publisher"], x["model_id"])\<close>.\<close>

definition report_key :: "model_info \<Rightarrow> string \<times> string" where
  "report_key x = (publisher x, model_id x)"

text \<open>
  The sweep. The \<open>print\<close> calls, the progress counter and the tables printed after the
  sort are output only; the value returned is the sorted \<open>all_models\<close>. One future is
  submitted per candidate, the results that are not \<open>None\<close> are appended in the order
  in which the futures complete, and \<open>list.sort\<close> is stable, as \<open>sort_key\<close> is.
\<close>

definition discover_models ::
  "world \<Rightarrow> string \<Rightarrow> bool \<Rightarrow> string option \<Rightarrow> exit + model_info list" where
  "discover_models w project use_static continent =
     (case get_access_token (gcloud_token w) of
        Inl e \<Rightarrow> Inl e
      | Inr access_token \<Rightarrow>
          (let rs = region_list continent;
               patterns = candidate_patterns w use_static;
               all_models = List.map_filter (unit_of_work (remote w) project access_token rs)
                              (arrange (completion w) (length patterns) patterns)
           in Inr (sort_key report_key all_models)))"

section \<open>The vocabulary of the specification\<close>

text \<open>
  The outcomes of a probe as the specification names them, and the name each has as a
  \<open>status\<close> string of the script.
\<close>

datatype outcome = Available | NeedsEula | NeedsPermission

fun status_name :: "outcome \<Rightarrow> string" where
  "status_name Available = ''available''"
| "status_name NeedsEula = ''needs_eula''"
| "status_name NeedsPermission = ''needs_permission''"

text \<open>
  A body mentions a keyword when some stretch of the body is the keyword up to the case
  of its letters.
\<close>

definition mentions :: "string \<Rightarrow> string \<Rightarrow> bool" where
  "mentions text kw \<longleftrightarrow> (\<exists>w. sublist w text \<and> lower w = kw)"

text \<open>The result table of the specification (section 4.1), \<open>None\<close> for absent.\<close>

fun classify :: "http_result \<Rightarrow> outcome option" where
  "classify (Response code text) =
     (if code = 200 then Some Available
      else if code = 403 then
        (if mentions text ''agreement'' \<or> mentions text ''eula'' \<or> mentions text ''terms''
         then Some NeedsEula else Some NeedsPermission)
      else None)"
| "classify Timeout = None"
| "classify RequestError = None"

text \<open>The precedence \<open>Available > NeedsEula > NeedsPermission\<close> as a rank of the status strings.\<close>

definition precedence :: "string \<Rightarrow> nat" where
  "precedence s =
     (if s = ''available'' then 3 else if s = ''needs_eula'' then 2
      else if s = ''needs_permission'' then 1 else 0)"

text \<open>
  A failed \<open>gcloud\<close> listing as the specification lists it: the command fails, times
  out, or is not there.
\<close>

definition listing_fails :: "proc_result \<Rightarrow> bool" where
  "listing_fails r \<longleftrightarrow>
     (case r of Completed returncode out err \<Rightarrow> returncode \<noteq> 0
              | TimeoutExpired \<Rightarrow> True
              | FileNotFoundError \<Rightarrow> True)"

text \<open>
  The network in which every call that raises in \<open>net\<close> is answered with 404 instead:
  the probes that fail become probes of a model that is not there.
\<close>

definition absent_on_error :: "network \<Rightarrow> network" where
  "absent_on_error net req =
     (case net req of
        Response code text \<Rightarrow> Response code text
      | Timeout \<Rightarrow> Response 404 []
      | RequestError \<Rightarrow> Response 404 [])"

section \<open>Example runs\<close>

text \<open>Two remote sides that answer every request with the same 403.\<close>

definition eula_wall :: network where
  "eula_wall req = Response 403 ''You must accept the EULA''"

definition permission_wall :: network where
  "permission_wall req = Response 403 ''insufficient permissions''"

text \<open>
  A remote side that answers by region and, on the global endpoint, by model: two
  regions serve every model, one asks for the licence, one times out; globally one
  model is served, one asks for its terms, one connection breaks, the rest is unknown.
\<close>

definition mixed_net :: network where
  "mixed_net req =
     (if prefix ''https://europe-west1-'' (url req) then Response 200 ''{}''
      else if prefix ''https://europe-west4-'' (url req) then Response 403 ''You must accept the EULA''
      else if prefix ''https://europe-west9-'' (url req) then Response 200 ''{}''
      else if prefix ''https://us-east1-'' (url req) then Timeout
      else if prefix ''https://us-'' (url req) then Response 403 ''Permission denied''
      else if suffix ''/gemini-2.5-pro:generateContent'' (url req) then Response 200 ''{}''
      else if suffix ''/claude-opus-4:rawPredict'' (url req) then Response 403 ''Accept the Terms first''
      else if suffix ''/mistral-ocr:rawPredict'' (url req) then RequestError
      else Response 404 ''not found'')"

text \<open>Two orders: always the first element left, and always the last one.\<close>

definition first_left :: "nat \<Rightarrow> nat" where
  "first_left n = 0"

definition last_left :: "nat \<Rightarrow> nat" where
  "last_left n = n"

text \<open>
  A run in which \<open>gcloud\<close> gives a token and lists four resource names, of which two
  are kept (the third has an unknown publisher, the fourth is no language model).
\<close>

definition example_world :: world where
  "example_world =
     \<lparr>gcloud_token = Completed 0 (''tok'' @ [CHR 0x0A]) [],
      gcloud_models = Completed 0
        (''publishers/google/models/gemini-2.5-pro@001'' @ [CHR 0x0A] @
         ''publishers/anthropic/models/claude-opus-4'' @ [CHR 0x0A] @
         ''publishers/acme/models/gemini-x'' @ [CHR 0x0A] @
         ''publishers/google/models/imagen-4'' @ [CHR 0x0A]) [],
      remote = mixed_net, set_order = last_left, completion = first_left\<rparr>"

text \<open>
  A run whose listing has one model id in two spellings that differ in the case of a
  letter, against a remote side that serves both.
\<close>

definition serves_gemini :: network where
  "serves_gemini req =
     (if suffix ''emini-2.5-pro:generateContent'' (url req) then Response 200 ''{}''
      else Response 404 ''not found'')"

definition case_world :: world where
  "case_world =
     \<lparr>gcloud_token = Completed 0 (''tok'' @ [CHR 0x0A]) [],
      gcloud_models = Completed 0
        (''publishers/google/models/gemini-2.5-pro'' @ [CHR 0x0A] @
         ''publishers/google/models/Gemini-2.5-pro'' @ [CHR 0x0A]) [],
      remote = serves_gemini, set_order = first_left, completion = first_left\<rparr>"

section \<open>Properties of the Gemini client\<close>

lemma payload_thinking_config_main:
  assumes "main_payload a p = Inr pl"
  shows "payload_thinking_config pl = Some (JObject (thinking_config a))"
  using assms
  by (auto simp: main_payload_def payload_thinking_config_def Let_def
           split: if_splits sum.splits)

lemma thinking_config_keys:
  "fst ` set (thinking_config a) =
     (if thinking_budget a > 0 then {''includeThoughts'', ''thinkingBudget''}
      else {''includeThoughts'', ''thinkingLevel''})"
  by (auto simp: thinking_config_def)

text \<open>
  Claim C9. Whenever \<open>main\<close> gets as far as building a payload, its \<open>thinkingConfig\<close> is
  an object that has the key \<open>thinkingBudget\<close> exactly when \<open>--thinking-budget\<close> is
  greater than 0 and the key \<open>thinkingLevel\<close> exactly when it is not (0 or negative);
  so it never has both, and it always has one of them.
\<close>

theorem thinking_config_exclusive:
  assumes "main_payload a p = Inr pl"
  shows "payload_thinking_config pl = Some (JObject (thinking_config a)) \<and>
         (''thinkingBudget'' \<in> fst ` set (thinking_config a) \<longleftrightarrow> thinking_budget a > 0) \<and>
         (''thinkingLevel'' \<in> fst ` set (thinking_config a) \<longleftrightarrow> \<not> thinking_budget a > 0) \<and>
         \<not> (''thinkingBudget'' \<in> fst ` set (thinking_config a) \<and>
            ''thinkingLevel'' \<in> fst ` set (thinking_config a))"
proof -
  have "payload_thinking_config pl = Some (JObject (thinking_config a))"
    using assms by (rule payload_thinking_config_main)
  moreover have "''thinkingBudget'' \<in> fst ` set (thinking_config a) \<longleftrightarrow> thinking_budget a > 0"
    by (simp add: thinking_config_keys)
  moreover have "''thinkingLevel'' \<in> fst ` set (thinking_config a) \<longleftrightarrow> \<not> thinking_budget a > 0"
    by (simp add: thinking_config_keys)
  ultimately show ?thesis by blast
qed

text \<open>
  The theorem at \<open>-p hi --api-key k -b 4000\<close> with the defaults elsewhere: the payload
  is built, and its \<open>thinkingConfig\<close> carries the budget and no level.
\<close>

theorem thinking_config_exclusive_witness:
  "main_payload
     \<lparr>prompt = Some ''hi'', stdin = False, model = ''gemini-3-pro-preview'',
      api_key = Some ''k'', max_tokens = 65536, thinking_level = ''high'',
      thinking_budget = 4000, no_thoughts = False, no_search = True,
      verbose = False, raw = False\<rparr>
     \<lparr>environ = Map.empty, isatty = True, stdin_read = []\<rparr>
   = Inr (JObject
       [(''contents'', JArray [JObject [(''parts'', JArray [JObject [(''text'', JString ''hi'')]])]]),
        (''generationConfig'',
           JObject [(''maxOutputTokens'', JInt 65536),
                    (''thinkingConfig'',
                       JObject [(''includeThoughts'', JBool True),
                                (''thinkingBudget'', JInt 4000)])])]) \<and>
   payload_thinking_config (JObject
       [(''contents'', JArray [JObject [(''parts'', JArray [JObject [(''text'', JString ''hi'')]])]]),
        (''generationConfig'',
           JObject [(''maxOutputTokens'', JInt 65536),
                    (''thinkingConfig'',
                       JObject [(''includeThoughts'', JBool True),
                                (''thinkingBudget'', JInt 4000)])])])
   = Some (JObject [(''includeThoughts'', JBool True), (''thinkingBudget'', JInt 4000)])"
proof -
  let ?a = "\<lparr>prompt = Some ''hi'', stdin = False, model = ''gemini-3-pro-preview'',
      api_key = Some ''k'', max_tokens = 65536, thinking_level = ''high'',
      thinking_budget = 4000, no_thoughts = False, no_search = True,
      verbose = False, raw = False\<rparr>"
  let ?p = "\<lparr>environ = Map.empty, isatty = True, stdin_read = []\<rparr>"
  let ?pl = "JObject
       [(''contents'', JArray [JObject [(''parts'', JArray [JObject [(''text'', JString ''hi'')]])]]),
        (''generationConfig'',
           JObject [(''maxOutputTokens'', JInt 65536),
                    (''thinkingConfig'',
                       JObject [(''includeThoughts'', JBool True),
                                (''thinkingBudget'', JInt 4000)])])]"
  have tc: "thinking_config ?a = [(''includeThoughts'', JBool True), (''thinkingBudget'', JInt 4000)]"
    by (simp add: thinking_config_def)
  have h: "main_payload ?a ?p = Inr ?pl"
    by (simp add: main_payload_def get_api_key_def py_or_def truthy_def tc)
  from thinking_config_exclusive [OF h] tc h show ?thesis by simp
qed

text \<open>
  Claim C10. The key is \<open>--api-key\<close> when that is given and not empty, and otherwise
  the value of \<open>GEMINI_API_KEY\<close> (Python's \<open>or\<close>). When that key is missing, empty
  or the literal \<open>1234\<close>, \<open>get_api_key\<close> exits with code 1; otherwise it returns that
  key unchanged.
\<close>

theorem get_api_key_exit_or_key:
  "(let key = (case arg_key of
                 None \<Rightarrow> env ''GEMINI_API_KEY''
               | Some k \<Rightarrow> if k = [] then env ''GEMINI_API_KEY'' else Some k)
    in get_api_key arg_key env =
         (if key = None \<or> key = Some [] \<or> key = Some ''1234''
          then Inl (SysExit 1)
          else Inr (case key of Some k \<Rightarrow> k | None \<Rightarrow> [])))"
  by (auto simp: get_api_key_def py_or_def truthy_def Let_def split: option.splits)

text \<open>
  The theorem on the four kinds of input: an argument that wins over the environment,
  an empty argument that falls back to it, the rejected literal, and no key at all.
\<close>

theorem get_api_key_exit_or_key_witness:
  "get_api_key (Some ''abc'') [''GEMINI_API_KEY'' \<mapsto> ''xyz''] = Inr ''abc'' \<and>
   get_api_key (Some []) [''GEMINI_API_KEY'' \<mapsto> ''xyz''] = Inr ''xyz'' \<and>
   get_api_key (Some ''1234'') [''GEMINI_API_KEY'' \<mapsto> ''xyz''] = Inl (SysExit 1) \<and>
   get_api_key None Map.empty = Inl (SysExit 1)"
  using get_api_key_exit_or_key [where arg_key = "Some ''abc''" and env = "[''GEMINI_API_KEY'' \<mapsto> ''xyz'']"]
        get_api_key_exit_or_key [where arg_key = "Some []" and env = "[''GEMINI_API_KEY'' \<mapsto> ''xyz'']"]
        get_api_key_exit_or_key [where arg_key = "Some ''1234''" and env = "[''GEMINI_API_KEY'' \<mapsto> ''xyz'']"]
        get_api_key_exit_or_key [where arg_key = None and env = Map.empty]
  by simp

section \<open>Properties of the probe and of the region aggregator\<close>

lemma sublist_lower: "sublist kw (lower text) \<longleftrightarrow> mentions text kw"
  unfolding lower_def mentions_def
  by (metis sublist_map_rightE map_mono_sublist)

lemma check_model_availability_status:
  assumes "check_model_availability net project pub mid tok region = Some r"
  shows "status r = ''available'' \<or> status r = ''needs_eula'' \<or> status r = ''needs_permission''"
  using assms
  by (auto simp: check_model_availability_def Let_def split: http_result.splits if_splits)

lemma check_model_availability_key:
  assumes "check_model_availability net project pub mid tok region = Some r"
  shows "publisher r = pub \<and> model_id r = mid"
  using assms
  by (auto simp: check_model_availability_def Let_def split: http_result.splits if_splits)

text \<open>
  Claim C1. The status of a probe result is read off the one response to the one request
  of the probe, by the table of the specification: 200 is Available; 403 is NeedsEula
  when the body mentions "agreement", "eula" or "terms" in any letter case, and
  NeedsPermission otherwise; 404, every other status, a timeout and any other exception
  give no result. The probe is one application of the network to one request, so nothing
  is tried twice.
\<close>

theorem check_model_availability_classifies:
  "map_option status (check_model_availability net project pub mid tok region) =
     map_option status_name (classify (net (probe_request project pub mid tok region)))"
  by (cases "net (probe_request project pub mid tok region)")
     (simp_all add: check_model_availability_def Let_def sublist_lower)

text \<open>
  The table on the two bodies of the specification, on a 200, on a timeout and on a 404.
\<close>

theorem check_model_availability_classifies_witness:
  "map_option status_name
     (classify (eula_wall (probe_request ''p'' ''google'' ''m'' ''t'' None)))
     = Some ''needs_eula'' \<and>
   map_option status_name
     (classify (permission_wall (probe_request ''p'' ''google'' ''m'' ''t'' None)))
     = Some ''needs_permission'' \<and>
   map_option status_name
     (classify (mixed_net (probe_request ''p'' ''google'' ''m'' ''t'' (Some ''europe-west1''))))
     = Some ''available'' \<and>
   map_option status_name
     (classify (mixed_net (probe_request ''p'' ''google'' ''m'' ''t'' (Some ''us-east1''))))
     = None \<and>
   map_option status_name
     (classify (mixed_net (probe_request ''p'' ''google'' ''m'' ''t'' None)))
     = None"
proof -
  have "map_option status
          (check_model_availability eula_wall ''p'' ''google'' ''m'' ''t'' None)
        = Some ''needs_eula''"
    by code_simp
  moreover have "map_option status
          (check_model_availability permission_wall ''p'' ''google'' ''m'' ''t'' None)
        = Some ''needs_permission''"
    by code_simp
  moreover have "map_option status
          (check_model_availability mixed_net ''p'' ''google'' ''m'' ''t'' (Some ''europe-west1''))
        = Some ''available''"
    by code_simp
  moreover have "map_option status
          (check_model_availability mixed_net ''p'' ''google'' ''m'' ''t'' (Some ''us-east1''))
        = None"
    by code_simp
  moreover have "map_option status
          (check_model_availability mixed_net ''p'' ''google'' ''m'' ''t'' None)
        = None"
    by code_simp
  ultimately show ?thesis
    by (simp only: check_model_availability_classifies simp_thms)
qed

lemma scan_regions_filter:
  "scan_regions probe rs (av, eu, pe) =
     (av @ filter (\<lambda>r. map_option status (probe r) = Some ''available'') rs,
      eu @ filter (\<lambda>r. map_option status (probe r) = Some ''needs_eula'') rs,
      pe @ filter (\<lambda>r. map_option status (probe r) = Some ''needs_permission'') rs)"
  by (induction rs arbitrary: av eu pe) (auto split: option.splits)

lemma check_model_in_regions_key_status:
  assumes "check_model_in_regions net project pub mid tok rs = Some r"
  shows "publisher r = pub \<and> model_id r = mid \<and>
         (status r = ''available'' \<or> status r = ''needs_eula'' \<or> status r = ''needs_permission'')"
  using assms
  by (auto simp: check_model_in_regions_def split: prod.splits if_splits)

text \<open>
  Claim C2. Write the outcome of a region for the status of its probe. When every region
  of the list is absent, \<open>check_model_in_regions\<close> returns \<open>None\<close>. When some region is
  not absent, it returns a report for the same publisher and model whose status is an
  outcome that some region attained and that no outcome of any region outranks under
  Available > NeedsEula > NeedsPermission, and whose regions are exactly the regions of
  the list with that outcome, in the order of the list.
\<close>

theorem check_model_in_regions_precedence:
  fixes net project pub mid tok rs
  defines "outcome \<equiv>
    \<lambda>r. map_option status (check_model_availability net project pub mid tok (Some r))"
  shows "((\<forall>r \<in> set rs. outcome r = None) \<longrightarrow>
            check_model_in_regions net project pub mid tok rs = None) \<and>
         ((\<exists>r \<in> set rs. outcome r \<noteq> None) \<longrightarrow>
            (\<exists>rep. check_model_in_regions net project pub mid tok rs = Some rep \<and>
                   publisher rep = pub \<and> model_id rep = mid \<and>
                   (\<exists>r \<in> set rs. outcome r = Some (status rep)) \<and>
                   (\<forall>r \<in> set rs. \<forall>s. outcome r = Some s \<longrightarrow>
                      precedence s \<le> precedence (status rep)) \<and>
                   regions rep = Some (filter (\<lambda>r. outcome r = Some (status rep)) rs)))"
proof -
  let ?av = "filter (\<lambda>r. outcome r = Some ''available'') rs"
  let ?eu = "filter (\<lambda>r. outcome r = Some ''needs_eula'') rs"
  let ?pe = "filter (\<lambda>r. outcome r = Some ''needs_permission'') rs"
  have scan: "scan_regions
                (\<lambda>region. check_model_availability net project pub mid tok (Some region))
                rs ([], [], []) = (?av, ?eu, ?pe)"
    by (simp add: scan_regions_filter outcome_def)
  have three: "s = ''available'' \<or> s = ''needs_eula'' \<or> s = ''needs_permission''"
    if "outcome r = Some s" for r s
    using that check_model_availability_status unfolding outcome_def by blast
  have mem: "(\<exists>r \<in> set rs. outcome r = Some s) \<longleftrightarrow> filter (\<lambda>r. outcome r = Some s) rs \<noteq> []"
    for s
    by (simp add: filter_empty_conv)
  consider (a) "?av \<noteq> []" | (e) "?av = []" "?eu \<noteq> []" | (p) "?av = []" "?eu = []" "?pe \<noteq> []"
    | (n) "?av = []" "?eu = []" "?pe = []" by blast
  then show ?thesis
  proof cases
    case a
    then have res: "check_model_in_regions net project pub mid tok rs =
            Some \<lparr>publisher = pub, model_id = mid, status = ''available'',
                  endpoint = None, regions = Some ?av,
                  requires_eula = (pub \<notin> set [''google''])\<rparr>"
      by (simp add: check_model_in_regions_def scan)
    have ex: "\<exists>r \<in> set rs. outcome r = Some ''available''" using a mem by blast
    have le: "precedence s \<le> precedence ''available''" for s by (simp add: precedence_def)
    from ex have "\<not> (\<forall>r \<in> set rs. outcome r = None)" by auto
    with res ex le show ?thesis by simp
  next
    case e
    then have res: "check_model_in_regions net project pub mid tok rs =
            Some \<lparr>publisher = pub, model_id = mid, status = ''needs_eula'',
                  endpoint = None, regions = Some ?eu,
                  requires_eula = (pub \<notin> set [''google''])\<rparr>"
      by (simp add: check_model_in_regions_def scan)
    have ex: "\<exists>r \<in> set rs. outcome r = Some ''needs_eula''" using e mem by blast
    have le: "precedence s \<le> precedence ''needs_eula''"
      if "r \<in> set rs" "outcome r = Some s" for r s
    proof -
      have "s \<noteq> ''available''" using e(1) that mem by blast
      with three[OF that(2)] show ?thesis by (auto simp: precedence_def)
    qed
    from ex have "\<not> (\<forall>r \<in> set rs. outcome r = None)" by auto
    with res ex le show ?thesis by simp
  next
    case p
    then have res: "check_model_in_regions net project pub mid tok rs =
            Some \<lparr>publisher = pub, model_id = mid, status = ''needs_permission'',
                  endpoint = None, regions = Some ?pe,
                  requires_eula = (pub \<notin> set [''google''])\<rparr>"
      by (simp add: check_model_in_regions_def scan)
    have ex: "\<exists>r \<in> set rs. outcome r = Some ''needs_permission''" using p mem by blast
    have le: "precedence s \<le> precedence ''needs_permission''"
      if "r \<in> set rs" "outcome r = Some s" for r s
    proof -
      have "s \<noteq> ''available''" "s \<noteq> ''needs_eula''" using p(1,2) that mem by blast+
      with three[OF that(2)] show ?thesis by (auto simp: precedence_def)
    qed
    from ex have "\<not> (\<forall>r \<in> set rs. outcome r = None)" by auto
    with res ex le show ?thesis by simp
  next
    case n
    then have res: "check_model_in_regions net project pub mid tok rs = None"
      by (simp add: check_model_in_regions_def scan)
    have "outcome r = None" if "r \<in> set rs" for r
    proof (cases "outcome r")
      case (Some s)
      with three[OF Some] n that mem show ?thesis by blast
    qed simp
    with res show ?thesis by simp
  qed
qed

text \<open>
  The precedence law of the specification on three regions, two Available and one
  NeedsEula between them: the report is Available with the two regions, in their order.
  And a list whose only region times out gives no report.
\<close>

theorem check_model_in_regions_precedence_witness:
  "map_option status
     (check_model_availability mixed_net ''p'' ''google'' ''gemini-2.5-pro'' ''t''
        (Some ''europe-west4'')) = Some ''needs_eula'' \<and>
   check_model_in_regions mixed_net ''p'' ''google'' ''gemini-2.5-pro'' ''t''
     [''europe-west1'', ''europe-west4'', ''europe-west9'']
     = Some \<lparr>publisher = ''google'', model_id = ''gemini-2.5-pro'', status = ''available'',
             endpoint = None, regions = Some [''europe-west1'', ''europe-west9''],
             requires_eula = False\<rparr> \<and>
   check_model_in_regions mixed_net ''p'' ''google'' ''gemini-2.5-pro'' ''t'' [''us-east1'']
     = None"
proof -
  let ?o = "\<lambda>r. map_option status
     (check_model_availability mixed_net ''p'' ''google'' ''gemini-2.5-pro'' ''t'' (Some r))"
  have o1: "?o ''europe-west1'' = Some ''available''" by code_simp
  have o4: "?o ''europe-west4'' = Some ''needs_eula''" by code_simp
  have o9: "?o ''europe-west9'' = Some ''available''" by code_simp
  have ou: "?o ''us-east1'' = None" by code_simp
  have some: "\<exists>r \<in> set [''europe-west1'', ''europe-west4'', ''europe-west9'']. ?o r \<noteq> None"
    using o1 by auto
  have none: "\<forall>r \<in> set [''us-east1'']. ?o r = None"
    using ou by auto
  from none
    check_model_in_regions_precedence [where net = mixed_net and project = "''p''"
      and pub = "''google''" and mid = "''gemini-2.5-pro''" and tok = "''t''"
      and rs = "[''us-east1'']"]
  have absent: "check_model_in_regions mixed_net ''p'' ''google'' ''gemini-2.5-pro'' ''t''
                  [''us-east1''] = None"
    by blast
  from some
    check_model_in_regions_precedence [where net = mixed_net and project = "''p''"
      and pub = "''google''" and mid = "''gemini-2.5-pro''" and tok = "''t''"
      and rs = "[''europe-west1'', ''europe-west4'', ''europe-west9'']"]
  obtain rep where rep:
    "check_model_in_regions mixed_net ''p'' ''google'' ''gemini-2.5-pro'' ''t''
       [''europe-west1'', ''europe-west4'', ''europe-west9''] = Some rep"
    "publisher rep = ''google''" "model_id rep = ''gemini-2.5-pro''"
    by blast
  moreover
  have "check_model_in_regions mixed_net ''p'' ''google'' ''gemini-2.5-pro'' ''t''
       [''europe-west1'', ''europe-west4'', ''europe-west9'']
     = Some \<lparr>publisher = ''google'', model_id = ''gemini-2.5-pro'', status = ''available'',
             endpoint = None, regions = Some [''europe-west1'', ''europe-west9''],
             requires_eula = False\<rparr>"
    by code_simp
  ultimately show ?thesis using o4 absent by simp
qed

text \<open>
  Claim C3, as stated, fails: on the global endpoint the first-party publisher
  \<open>google\<close> gets \<open>requires_eula = True\<close> from a 403 that mentions the licence and
  \<open>requires_eula = False\<close> from a 403 that does not, so the field depends on the
  outcome of the probe.
\<close>

theorem requires_eula_depends_on_outcome:
  "map_option requires_eula
     (check_model_availability eula_wall ''p'' ''google'' ''gemini-2.5-pro'' ''t'' None)
     = Some True \<and>
   map_option requires_eula
     (check_model_availability permission_wall ''p'' ''google'' ''gemini-2.5-pro'' ''t'' None)
     = Some False"
  by code_simp

text \<open>
  Claim C3, amended. In a probe result \<open>requires_eula\<close> is true exactly when the
  publisher is not \<open>google\<close> or the status is \<open>needs_eula\<close>: for the statuses
  \<open>available\<close> and \<open>needs_permission\<close> it is a function of the publisher alone, and
  for \<open>needs_eula\<close> it is true for every publisher. In a report of
  \<open>check_model_in_regions\<close> it is true exactly when the publisher is not \<open>google\<close>,
  whatever the status.
\<close>

theorem requires_eula_by_publisher:
  "(\<forall>r. check_model_availability net project pub mid tok region = Some r \<longrightarrow>
        requires_eula r = (pub \<noteq> ''google'' \<or> status r = ''needs_eula'')) \<and>
   (\<forall>r. check_model_in_regions net project pub mid tok rs = Some r \<longrightarrow>
        requires_eula r = (pub \<noteq> ''google''))"
proof -
  have "requires_eula r = (pub \<noteq> ''google'' \<or> status r = ''needs_eula'')"
    if "check_model_availability net project pub mid tok region = Some r" for r
    using that
    by (auto simp: check_model_availability_def Let_def split: http_result.splits if_splits)
  moreover have "requires_eula r = (pub \<noteq> ''google'')"
    if "check_model_in_regions net project pub mid tok rs = Some r" for r
    using that
    by (auto simp: check_model_in_regions_def split: prod.splits if_splits)
  ultimately show ?thesis by blast
qed

text \<open>
  The amended claim on \<open>google\<close> and on a partner, for a probe that is served and for
  a regional report whose status is \<open>needs_eula\<close>.
\<close>

theorem requires_eula_by_publisher_witness:
  "check_model_availability mixed_net ''p'' ''google'' ''gemini-2.5-pro'' ''t'' None
     = Some \<lparr>publisher = ''google'', model_id = ''gemini-2.5-pro'', status = ''available'',
             endpoint = Some ''global'', regions = None, requires_eula = False\<rparr> \<and>
   check_model_in_regions mixed_net ''p'' ''google'' ''gemini-2.5-pro'' ''t'' [''europe-west4'']
     = Some \<lparr>publisher = ''google'', model_id = ''gemini-2.5-pro'', status = ''needs_eula'',
             endpoint = None, regions = Some [''europe-west4''], requires_eula = False\<rparr> \<and>
   check_model_in_regions mixed_net ''p'' ''anthropic'' ''claude-opus-4'' ''t'' [''europe-west4'']
     = Some \<lparr>publisher = ''anthropic'', model_id = ''claude-opus-4'', status = ''needs_eula'',
             endpoint = None, regions = Some [''europe-west4''], requires_eula = True\<rparr>"
proof -
  let ?g = "\<lparr>publisher = ''google'', model_id = ''gemini-2.5-pro'', status = ''available'',
             endpoint = Some ''global'', regions = None, requires_eula = False\<rparr>"
  let ?rg = "\<lparr>publisher = ''google'', model_id = ''gemini-2.5-pro'', status = ''needs_eula'',
             endpoint = None, regions = Some [''europe-west4''], requires_eula = False\<rparr>"
  let ?ra = "\<lparr>publisher = ''anthropic'', model_id = ''claude-opus-4'', status = ''needs_eula'',
             endpoint = None, regions = Some [''europe-west4''], requires_eula = True\<rparr>"
  have g: "check_model_availability mixed_net ''p'' ''google'' ''gemini-2.5-pro'' ''t'' None
             = Some ?g"
    by code_simp
  have rg: "check_model_in_regions mixed_net ''p'' ''google'' ''gemini-2.5-pro'' ''t''
              [''europe-west4''] = Some ?rg"
    by code_simp
  have ra: "check_model_in_regions mixed_net ''p'' ''anthropic'' ''claude-opus-4'' ''t''
              [''europe-west4''] = Some ?ra"
    by code_simp
  from g rg
    requires_eula_by_publisher [where net = mixed_net and project = "''p''"
      and pub = "''google''" and mid = "''gemini-2.5-pro''" and tok = "''t''"
      and region = None and rs = "[''europe-west4'']"]
  have "requires_eula ?g = False" "requires_eula ?rg = False"
    by simp_all
  moreover from ra
    requires_eula_by_publisher [where net = mixed_net and project = "''p''"
      and pub = "''anthropic''" and mid = "''claude-opus-4''" and tok = "''t''"
      and region = None and rs = "[''europe-west4'']"]
  have "requires_eula ?ra = True"
    by simp
  ultimately show ?thesis using g rg ra by simp
qed

section \<open>Properties of the catalog\<close>

text \<open>\<open>arrange\<close> gives an order of the list, and every order of the list is one it gives.\<close>

lemma mset_arrange: "n = length xs \<Longrightarrow> mset (arrange pick n xs) = mset xs"
proof (induction n arbitrary: xs)
  case 0
  then show ?case by simp
next
  case (Suc n)
  then have ne: "xs \<noteq> []" by auto
  define k where "k = pick n mod length xs"
  have k: "k < length xs" using ne by (simp add: k_def)
  have len: "n = length (take k xs @ drop (Suc k) xs)" using Suc.prems k by simp
  have "mset (arrange pick (Suc n) xs) = add_mset (xs ! k) (mset (take k xs @ drop (Suc k) xs))"
    using ne Suc.IH[OF len] by (simp add: k_def Let_def)
  also have "\<dots> = mset (take k xs @ xs ! k # drop (Suc k) xs)" by simp
  also have "\<dots> = mset xs" using id_take_nth_drop[OF k] by simp
  finally show ?case .
qed

lemma arrange_cong: "(\<And>i. i < n \<Longrightarrow> p i = q i) \<Longrightarrow> arrange p n xs = arrange q n xs"
  by (induction n arbitrary: xs) (simp_all add: Let_def)

lemma arrange_complete: "mset ys = mset xs \<Longrightarrow> \<exists>pick. arrange pick (length xs) xs = ys"
proof (induction ys arbitrary: xs)
  case Nil
  then show ?case by simp
next
  case (Cons y ys)
  then have "y \<in> set xs" by (metis list.set_intros(1) mset_eq_setD)
  then obtain k where k: "k < length xs" "xs ! k = y" by (auto simp: in_set_conv_nth)
  let ?xs' = "take k xs @ drop (Suc k) xs"
  have xs: "xs = take k xs @ y # drop (Suc k) xs" using id_take_nth_drop[OF k(1)] k(2) by simp
  have "mset xs = add_mset y (mset ?xs')" by (subst xs) simp
  with Cons.prems have "mset ys = mset ?xs'" by simp
  from Cons.IH[OF this] obtain p where p: "arrange p (length ?xs') ?xs' = ys" by blast
  obtain n where n: "length xs = Suc n" using k(1) by (cases xs) auto
  have len: "length ?xs' = n" using n k(1) by simp
  let ?q = "p(n := k)"
  have "arrange ?q n ?xs' = arrange p n ?xs'" by (rule arrange_cong) simp
  then have "arrange ?q (Suc n) xs = y # ys"
    using k n p len by (auto simp: Let_def)
  then show ?case unfolding n by blast
qed

lemma distinct_expand_models: "distinct expanded \<Longrightarrow> distinct (expand_models models expanded)"
  by (induction models expanded rule: expand_models.induct) (simp_all add: Let_def)

lemma distinct_fold_insert: "distinct xs \<Longrightarrow> distinct (fold (\<lambda>m. List.insert (f m)) ms xs)"
  by (induction ms arbitrary: xs) simp_all

lemma distinct_static_patterns: "distinct static_patterns"
  by code_simp

lemma static_patterns_nonempty: "static_patterns \<noteq> []"
  by (simp add: static_patterns_def)

lemma distinct_get_model_patterns: "distinct (get_model_patterns w b)"
  by (simp add: get_model_patterns_def Let_def distinct_static_patterns
        mset_eq_imp_distinct_iff[OF mset_arrange] distinct_fold_insert distinct_expand_models)

lemma get_model_patterns_nonempty: "get_model_patterns w b \<noteq> []"
proof -
  have "arrange p (length xs) xs \<noteq> []" if "xs \<noteq> []" for p and xs :: "(string \<times> string) list"
    using that mset_arrange[of "length xs" xs p] by (metis mset_zero_iff)
  moreover have "fold (\<lambda>m. List.insert (''mistral-ai'', m)) mistral_specific_models xs \<noteq> []"
    for xs
    by (auto simp: mistral_specific_models_def List.insert_def)
  ultimately show ?thesis
    by (simp add: get_model_patterns_def Let_def static_patterns_nonempty)
qed

lemma distinct_candidate_patterns: "distinct (candidate_patterns w b)"
  by (simp add: candidate_patterns_def Let_def distinct_get_model_patterns)

text \<open>
  Claim C7. When the listing command fails (a return code other than 0, a timeout, no
  executable) or the fetch returns the empty list, the dynamic \<open>get_model_patterns\<close>
  returns the static table itself, which is not empty, so every pair of the table is a
  candidate; and \<open>get_model_patterns\<close> with \<open>use_dynamic = False\<close>, which is what a
  sweep with \<open>use_static\<close> calls, returns the static table whatever the listing command
  would do.
\<close>

theorem get_model_patterns_fallback:
  "(listing_fails (gcloud_models w) \<or> fetch_model_garden_models (gcloud_models w) = [] \<longrightarrow>
      get_model_patterns w True = static_patterns) \<and>
   get_model_patterns w False = static_patterns \<and>
   candidate_patterns w True = static_patterns \<and>
   static_patterns \<noteq> []"
proof -
  have "fetch_model_garden_models (gcloud_models w) = []" if "listing_fails (gcloud_models w)"
    using that
    by (cases "gcloud_models w") (simp_all add: listing_fails_def fetch_model_garden_models_def)
  then have "get_model_patterns w True = static_patterns"
    if "listing_fails (gcloud_models w) \<or> fetch_model_garden_models (gcloud_models w) = []"
    using that by (auto simp: get_model_patterns_def)
  moreover have "get_model_patterns w False = static_patterns"
    by (simp add: get_model_patterns_def)
  moreover have "candidate_patterns w True = static_patterns"
    by (simp add: candidate_patterns_def get_model_patterns_def static_patterns_nonempty)
  ultimately show ?thesis using static_patterns_nonempty by blast
qed

text \<open>
  The fallback on a listing that times out, on one that lists nothing usable, and the
  static table chosen although the listing works.
\<close>

theorem get_model_patterns_fallback_witness:
  "listing_fails (gcloud_models (example_world\<lparr>gcloud_models := TimeoutExpired\<rparr>)) \<and>
   get_model_patterns (example_world\<lparr>gcloud_models := TimeoutExpired\<rparr>) True = static_patterns \<and>
   fetch_model_garden_models
     (gcloud_models (example_world\<lparr>gcloud_models := Completed 0 ''no models'' []\<rparr>)) = [] \<and>
   get_model_patterns (example_world\<lparr>gcloud_models := Completed 0 ''no models'' []\<rparr>) True
     = static_patterns \<and>
   get_model_patterns example_world False = static_patterns \<and>
   get_model_patterns example_world True \<noteq> static_patterns"
proof -
  have f: "listing_fails (gcloud_models (example_world\<lparr>gcloud_models := TimeoutExpired\<rparr>))"
    by (simp add: listing_fails_def)
  have e: "fetch_model_garden_models
     (gcloud_models (example_world\<lparr>gcloud_models := Completed 0 ''no models'' []\<rparr>)) = []"
    by code_simp
  have d: "get_model_patterns example_world True \<noteq> static_patterns"
    by code_simp
  from f e d
    get_model_patterns_fallback [of "example_world\<lparr>gcloud_models := TimeoutExpired\<rparr>"]
    get_model_patterns_fallback [of "example_world\<lparr>gcloud_models := Completed 0 ''no models'' []\<rparr>"]
    get_model_patterns_fallback [of example_world]
  show ?thesis by blast
qed

section \<open>Properties of the sweep\<close>

lemma unit_of_work_key_status:
  assumes "unit_of_work net project tok rs c = Some r"
  shows "report_key r = c \<and>
         (status r = ''available'' \<or> status r = ''needs_eula'' \<or> status r = ''needs_permission'')"
proof (cases c)
  case (Pair pub mid)
  show ?thesis
  proof (cases "\<exists>x xs. rs = Some (x # xs)")
    case True
    then obtain x xs where "rs = Some (x # xs)" by blast
    with assms Pair have "check_model_in_regions net project pub mid tok (x # xs) = Some r"
      by (simp add: unit_of_work_def)
    from check_model_in_regions_key_status[OF this] Pair show ?thesis
      by (simp add: report_key_def)
  next
    case False
    with assms Pair have g: "check_model_availability net project pub mid tok None = Some r"
      by (auto simp: unit_of_work_def split: option.splits list.splits)
    from check_model_availability_key[OF g] check_model_availability_status[OF g] Pair
    show ?thesis by (simp add: report_key_def)
  qed
qed

lemma keys_map_filter:
  "map report_key (List.map_filter (unit_of_work net project tok rs) cs) =
     filter (\<lambda>c. unit_of_work net project tok rs c \<noteq> None) cs"
proof (induction cs)
  case Nil
  then show ?case by (simp add: List.map_filter_simps)
next
  case (Cons c cs)
  then show ?case
    using unit_of_work_key_status[of net project tok rs c]
    by (cases "unit_of_work net project tok rs c") (auto simp: List.map_filter_simps)
qed

lemma mset_map_filter:
  "mset xs = mset ys \<Longrightarrow> mset (List.map_filter f xs) = mset (List.map_filter f ys)"
  by (simp add: List.map_filter_def)

lemma map_sort_key: "map f (sort_key f xs) = sort (map f xs)"
  by (rule properties_for_sort[symmetric]) simp_all

lemma discover_models_unfold:
  assumes "get_access_token (gcloud_token w) = Inr tok"
  shows "discover_models w project use_static continent =
           Inr (sort_key report_key
                  (List.map_filter (unit_of_work (remote w) project tok (region_list continent))
                     (arrange (completion w) (length (candidate_patterns w use_static))
                        (candidate_patterns w use_static))))"
  using assms by (simp add: discover_models_def Let_def)

lemma check_model_availability_absent_on_error:
  "check_model_availability (absent_on_error net) project pub mid tok region =
   check_model_availability net project pub mid tok region"
  by (simp add: check_model_availability_def absent_on_error_def split: http_result.splits)

lemma unit_of_work_absent_on_error:
  "unit_of_work (absent_on_error net) project tok rs = unit_of_work net project tok rs"
  by (rule ext)
     (simp add: unit_of_work_def check_model_in_regions_def
           check_model_availability_absent_on_error
           split: prod.splits option.splits list.splits)

lemma get_model_patterns_remote:
  "get_model_patterns (w\<lparr>remote := net\<rparr>) b = get_model_patterns w b"
  by (simp add: get_model_patterns_def Let_def)

lemma candidate_patterns_remote:
  "candidate_patterns (w\<lparr>remote := net\<rparr>) use_static = candidate_patterns w use_static"
  by (simp add: candidate_patterns_def get_model_patterns_remote Let_def)

lemma mset_get_model_patterns_order:
  "mset (get_model_patterns (w\<lparr>set_order := so, completion := co\<rparr>) b)
     = mset (get_model_patterns w b)"
  by (simp add: get_model_patterns_def Let_def mset_arrange)

lemma mset_candidate_patterns_order:
  "mset (candidate_patterns (w\<lparr>set_order := so, completion := co\<rparr>) b)
     = mset (candidate_patterns w b)"
  by (simp add: candidate_patterns_def Let_def get_model_patterns_nonempty
        mset_get_model_patterns_order)

text \<open>
  Claim C4. Once the access token is there, the sweep returns a report for every
  network, also one in which probes time out or raise; the report is the one of the
  network that answers each failing call with a 404, so a unit that fails counts as
  absent; and a probe whose one call times out or raises returns \<open>None\<close>.
\<close>

theorem discover_models_completes:
  assumes "get_access_token (gcloud_token w) = Inr tok"
  shows "(\<exists>report. discover_models w project use_static continent = Inr report) \<and>
         discover_models (w\<lparr>remote := absent_on_error (remote w)\<rparr>) project use_static continent
           = discover_models w project use_static continent \<and>
         (remote w (probe_request project pub mid tok region) = Timeout \<or>
          remote w (probe_request project pub mid tok region) = RequestError \<longrightarrow>
            check_model_availability (remote w) project pub mid tok region = None)"
proof -
  have 1: "\<exists>report. discover_models w project use_static continent = Inr report"
    using discover_models_unfold[OF assms] by simp
  have tok': "get_access_token (gcloud_token (w\<lparr>remote := absent_on_error (remote w)\<rparr>)) = Inr tok"
    using assms by simp
  have 2: "discover_models (w\<lparr>remote := absent_on_error (remote w)\<rparr>) project use_static continent
           = discover_models w project use_static continent"
    by (simp add: discover_models_unfold[OF tok'] discover_models_unfold[OF assms]
          candidate_patterns_remote unit_of_work_absent_on_error)
  have 3: "remote w (probe_request project pub mid tok region) = Timeout \<or>
          remote w (probe_request project pub mid tok region) = RequestError \<longrightarrow>
            check_model_availability (remote w) project pub mid tok region = None"
    by (auto simp: check_model_availability_def)
  from 1 2 3 show ?thesis by blast
qed

text \<open>
  The example run on the global endpoint: the probe of \<open>mistral-ocr\<close> raises and returns
  \<open>None\<close>, and the sweep still returns its report of two models.
\<close>

theorem discover_models_completes_witness:
  "get_access_token (gcloud_token example_world) = Inr ''tok'' \<and>
   remote example_world (probe_request ''p'' ''mistral-ai'' ''mistral-ocr'' ''tok'' None)
     = RequestError \<and>
   check_model_availability (remote example_world) ''p'' ''mistral-ai'' ''mistral-ocr'' ''tok'' None
     = None \<and>
   discover_models example_world ''p'' False None
     = Inr [\<lparr>publisher = ''anthropic'', model_id = ''claude-opus-4'', status = ''needs_eula'',
              endpoint = Some ''global'', regions = None, requires_eula = True\<rparr>,
            \<lparr>publisher = ''google'', model_id = ''gemini-2.5-pro'', status = ''available'',
              endpoint = Some ''global'', regions = None, requires_eula = False\<rparr>] \<and>
   discover_models (example_world\<lparr>remote := absent_on_error (remote example_world)\<rparr>)
       ''p'' False None
     = Inr [\<lparr>publisher = ''anthropic'', model_id = ''claude-opus-4'', status = ''needs_eula'',
              endpoint = Some ''global'', regions = None, requires_eula = True\<rparr>,
            \<lparr>publisher = ''google'', model_id = ''gemini-2.5-pro'', status = ''available'',
              endpoint = Some ''global'', regions = None, requires_eula = False\<rparr>]"
proof -
  have t: "get_access_token (gcloud_token example_world) = Inr ''tok''"
    by code_simp
  have x: "remote example_world (probe_request ''p'' ''mistral-ai'' ''mistral-ocr'' ''tok'' None)
             = RequestError"
    by code_simp
  have d: "discover_models example_world ''p'' False None
     = Inr [\<lparr>publisher = ''anthropic'', model_id = ''claude-opus-4'', status = ''needs_eula'',
              endpoint = Some ''global'', regions = None, requires_eula = True\<rparr>,
            \<lparr>publisher = ''google'', model_id = ''gemini-2.5-pro'', status = ''available'',
              endpoint = Some ''global'', regions = None, requires_eula = False\<rparr>]"
    by code_simp
  from discover_models_completes [OF t, where project = "''p''" and use_static = False
      and continent = None and pub = "''mistral-ai''" and mid = "''mistral-ocr''"
      and region = None] t x d
  show ?thesis by simp
qed

text \<open>
  Claim C5. The keys (publisher, model id) of the report are the sorted list of the
  candidates whose unit of work is not absent: every absent result is dropped and every
  other one is kept. So the report is sorted ascending by that pair, in the order of
  Python's comparison of tuples of strings, and no two entries have the same pair.
\<close>

theorem discover_models_sorted:
  assumes "get_access_token (gcloud_token w) = Inr tok"
      and "discover_models w project use_static continent = Inr report"
  shows "sorted (map report_key report) \<and>
         distinct (map report_key report) \<and>
         map report_key report =
           sort (filter (\<lambda>c. unit_of_work (remote w) project tok (region_list continent) c \<noteq> None)
                   (candidate_patterns w use_static))"
proof -
  let ?u = "unit_of_work (remote w) project tok (region_list continent)"
  let ?P = "candidate_patterns w use_static"
  let ?A = "arrange (completion w) (length ?P) ?P"
  have rep: "report = sort_key report_key (List.map_filter ?u ?A)"
    using assms discover_models_unfold[OF assms(1)] by simp
  have keys: "map report_key report = sort (filter (\<lambda>c. ?u c \<noteq> None) ?A)"
    by (simp add: rep map_sort_key keys_map_filter)
  have perm: "mset ?A = mset ?P" by (simp add: mset_arrange)
  have "sort (filter (\<lambda>c. ?u c \<noteq> None) ?A) = sort (filter (\<lambda>c. ?u c \<noteq> None) ?P)"
    by (rule properties_for_sort) (simp_all add: perm)
  with keys have k: "map report_key report = sort (filter (\<lambda>c. ?u c \<noteq> None) ?P)" by simp
  have "distinct (filter (\<lambda>c. ?u c \<noteq> None) ?P)"
    by (simp add: distinct_candidate_patterns)
  then have "distinct (map report_key report)" by (simp add: k)
  moreover have "sorted (map report_key report)" by (simp add: k)
  ultimately show ?thesis using k by simp
qed

text \<open>
  The run with the two spellings: both are served, the capital letter sorts first, and
  the mistral candidates, which are absent, are not in the report.
\<close>

theorem discover_models_sorted_witness:
  "get_access_token (gcloud_token case_world) = Inr ''tok'' \<and>
   discover_models case_world ''p'' False None
     = Inr [\<lparr>publisher = ''google'', model_id = ''Gemini-2.5-pro'', status = ''available'',
              endpoint = Some ''global'', regions = None, requires_eula = False\<rparr>,
            \<lparr>publisher = ''google'', model_id = ''gemini-2.5-pro'', status = ''available'',
              endpoint = Some ''global'', regions = None, requires_eula = False\<rparr>] \<and>
   sorted [(''google'', ''Gemini-2.5-pro''), (''google'', ''gemini-2.5-pro'')] \<and>
   distinct [(''google'', ''Gemini-2.5-pro''), (''google'', ''gemini-2.5-pro'')]"
proof -
  have t: "get_access_token (gcloud_token case_world) = Inr ''tok''"
    by code_simp
  have d: "discover_models case_world ''p'' False None
     = Inr [\<lparr>publisher = ''google'', model_id = ''Gemini-2.5-pro'', status = ''available'',
              endpoint = Some ''global'', regions = None, requires_eula = False\<rparr>,
            \<lparr>publisher = ''google'', model_id = ''gemini-2.5-pro'', status = ''available'',
              endpoint = Some ''global'', regions = None, requires_eula = False\<rparr>]"
    by code_simp
  from discover_models_sorted [OF t d]
  have "sorted (map report_key
          [\<lparr>publisher = ''google'', model_id = ''Gemini-2.5-pro'', status = ''available'',
              endpoint = Some ''global'', regions = None, requires_eula = False\<rparr>,
            \<lparr>publisher = ''google'', model_id = ''gemini-2.5-pro'', status = ''available'',
              endpoint = Some ''global'', regions = None, requires_eula = False\<rparr>])"
    and "distinct (map report_key
          [\<lparr>publisher = ''google'', model_id = ''Gemini-2.5-pro'', status = ''available'',
              endpoint = Some ''global'', regions = None, requires_eula = False\<rparr>,
            \<lparr>publisher = ''google'', model_id = ''gemini-2.5-pro'', status = ''available'',
              endpoint = Some ''global'', regions = None, requires_eula = False\<rparr>])"
    by blast+
  then have "sorted [(''google'', ''Gemini-2.5-pro''), (''google'', ''gemini-2.5-pro'')]"
    and "distinct [(''google'', ''Gemini-2.5-pro''), (''google'', ''gemini-2.5-pro'')]"
    by (simp_all only: report_key_def list.map model_info.simps)
  with t d show ?thesis by blast
qed

text \<open>
  Claim C6. The status of every entry of a report of the sweep is one of \<open>available\<close>,
  \<open>needs_eula\<close> and \<open>needs_permission\<close>; nothing else is ever a status, so neither a
  NotFound nor an Inconclusive is.
\<close>

theorem discover_models_status:
  assumes "discover_models w project use_static continent = Inr report"
      and "m \<in> set report"
  shows "status m = ''available'' \<or> status m = ''needs_eula'' \<or> status m = ''needs_permission''"
proof -
  obtain tok where tok: "get_access_token (gcloud_token w) = Inr tok"
    using assms(1) by (cases "get_access_token (gcloud_token w)") (simp_all add: discover_models_def)
  let ?u = "unit_of_work (remote w) project tok (region_list continent)"
  have "report = sort_key report_key (List.map_filter ?u
          (arrange (completion w) (length (candidate_patterns w use_static))
             (candidate_patterns w use_static)))"
    using assms(1) discover_models_unfold[OF tok, of project use_static continent] by simp
  with assms(2) have "m \<in> set (List.map_filter ?u
          (arrange (completion w) (length (candidate_patterns w use_static))
             (candidate_patterns w use_static)))"
    by simp
  then obtain c where "?u c = Some m"
    by (auto simp: List.map_filter_def)
  from unit_of_work_key_status[OF this] show ?thesis by simp
qed

text \<open>The example run on the global endpoint, and the first entry of its report.\<close>

theorem discover_models_status_witness:
  "discover_models example_world ''p'' False None
     = Inr [\<lparr>publisher = ''anthropic'', model_id = ''claude-opus-4'', status = ''needs_eula'',
              endpoint = Some ''global'', regions = None, requires_eula = True\<rparr>,
            \<lparr>publisher = ''google'', model_id = ''gemini-2.5-pro'', status = ''available'',
              endpoint = Some ''global'', regions = None, requires_eula = False\<rparr>] \<and>
   status \<lparr>publisher = ''anthropic'', model_id = ''claude-opus-4'', status = ''needs_eula'',
           endpoint = Some ''global'', regions = None, requires_eula = True\<rparr>
     = ''needs_eula''"
proof -
  let ?m = "\<lparr>publisher = ''anthropic'', model_id = ''claude-opus-4'', status = ''needs_eula'',
              endpoint = Some ''global'', regions = None, requires_eula = True\<rparr>"
  let ?g = "\<lparr>publisher = ''google'', model_id = ''gemini-2.5-pro'', status = ''available'',
              endpoint = Some ''global'', regions = None, requires_eula = False\<rparr>"
  have d: "discover_models example_world ''p'' False None = Inr [?m, ?g]"
    by code_simp
  have m: "?m \<in> set [?m, ?g]" by simp
  from discover_models_status [OF d m] d show ?thesis by simp
qed

text \<open>
  Claim C8. Two runs of the sweep with the same \<open>gcloud\<close> results and the same answer
  of the remote side to every request return the same report: the report does not
  depend on the order in which the futures complete, nor on the order in which the set
  of candidates is listed.
\<close>

theorem discover_models_idempotent:
  "discover_models (w\<lparr>set_order := so, completion := co\<rparr>) project use_static continent
     = discover_models w project use_static continent"
proof (cases "get_access_token (gcloud_token w)")
  case (Inl e)
  then show ?thesis by (simp add: discover_models_def)
next
  case (Inr tok)
  let ?w' = "w\<lparr>set_order := so, completion := co\<rparr>"
  let ?u = "unit_of_work (remote w) project tok (region_list continent)"
  let ?P = "candidate_patterns w use_static"
  let ?P' = "candidate_patterns ?w' use_static"
  let ?A = "List.map_filter ?u (arrange (completion w) (length ?P) ?P)"
  let ?A' = "List.map_filter ?u (arrange co (length ?P') ?P')"
  have tok': "get_access_token (gcloud_token ?w') = Inr tok" using Inr by simp
  have "mset (arrange co (length ?P') ?P') = mset (arrange (completion w) (length ?P) ?P)"
    by (simp add: mset_arrange mset_candidate_patterns_order)
  then have m: "mset ?A' = mset ?A" by (rule mset_map_filter)
  have "distinct (arrange co (length ?P') ?P')"
    using mset_eq_imp_distinct_iff[OF mset_arrange[OF refl, of co ?P']]
      distinct_candidate_patterns
    by blast
  then have "distinct (map report_key ?A')"
    by (simp add: keys_map_filter)
  then have inj: "inj_on report_key (set ?A')" by (simp add: distinct_map)
  have "sort_key report_key ?A' = sort_key report_key ?A"
    by (rule sort_key_inj_key_eq) (simp_all add: m inj)
  then show ?thesis
    by (simp add: discover_models_unfold[OF tok'] discover_models_unfold[OF Inr])
qed

text \<open>
  The example run once more with both orders turned round: the candidates are listed
  and the futures complete in another order, and the report is the same.
\<close>

theorem discover_models_idempotent_witness:
  "arrange first_left 3 [''a'', ''b'', ''c''] = [''a'', ''b'', ''c''] \<and>
   arrange last_left 3 [''a'', ''b'', ''c''] = [''c'', ''b'', ''a''] \<and>
   discover_models (example_world\<lparr>set_order := first_left, completion := last_left\<rparr>)
       ''p'' False None
     = Inr [\<lparr>publisher = ''anthropic'', model_id = ''claude-opus-4'', status = ''needs_eula'',
              endpoint = Some ''global'', regions = None, requires_eula = True\<rparr>,
            \<lparr>publisher = ''google'', model_id = ''gemini-2.5-pro'', status = ''available'',
              endpoint = Some ''global'', regions = None, requires_eula = False\<rparr>]"
proof -
  have a: "arrange first_left 3 [''a'', ''b'', ''c''] = [''a'', ''b'', ''c'']"
    by code_simp
  have b: "arrange last_left 3 [''a'', ''b'', ''c''] = [''c'', ''b'', ''a'']"
    by code_simp
  have d: "discover_models example_world ''p'' False None
     = Inr [\<lparr>publisher = ''anthropic'', model_id = ''claude-opus-4'', status = ''needs_eula'',
              endpoint = Some ''global'', regions = None, requires_eula = True\<rparr>,
            \<lparr>publisher = ''google'', model_id = ''gemini-2.5-pro'', status = ''available'',
              endpoint = Some ''global'', regions = None, requires_eula = False\<rparr>]"
    by code_simp
  from a b d
    discover_models_idempotent [where w = example_world and so = first_left
      and co = last_left and project = "''p''" and use_static = False and continent = None]
  show ?thesis by simp
qed

end
